theory Spec2Isabelle
  imports Main "HOL-Library.Word" "HOL-Library.AList"
begin

unbundle bit_operations_syntax

section \<open>JavaScript strings and arrays\<close>

text \<open>
  A JavaScript string is modelled as a \<^typ>\<open>string\<close>: the list of its characters, each
  read as a code point in U+0000..U+00FF. \<open>string | undefined\<close> (an optional argument, a
  variable of \<open>process.env\<close>, a cookie value) is a \<^typ>\<open>string option\<close>.
\<close>

text \<open>\<open>Array.prototype.join(sep)\<close>.\<close>

fun join :: "string \<Rightarrow> string list \<Rightarrow> string" where
  "join sep [] = []"
| "join sep [x] = x"
| "join sep (x # y # ys) = x @ sep @ join sep (y # ys)"

text \<open>\<open>s.split(c)\<close> for a separator \<open>c\<close> of one character.\<close>

fun split_on :: "char \<Rightarrow> string \<Rightarrow> string list" where
  "split_on c [] = [] # []"
| "split_on c (x # xs) =
     (if x = c then [] # split_on c xs
      else (case split_on c xs of
              w # ws \<Rightarrow> (x # w) # ws
            | [] \<Rightarrow> [x] # []))"

text \<open>
  Truthiness of a \<open>string | undefined | null\<close> value, as tested by \<open>if (x)\<close>, \<open>!x\<close>,
  \<open>x ? a : b\<close> and \<open>x || y\<close>: \<open>undefined\<close>, \<open>null\<close> and the empty string are falsy.
\<close>

fun truthy :: "string option \<Rightarrow> bool" where
  "truthy None = False"
| "truthy (Some s) = (s \<noteq> [])"

text \<open>\<open>x || null\<close> on such a value.\<close>

definition or_null :: "string option \<Rightarrow> string option" where
  "or_null x = (if truthy x then x else None)"

text \<open>\<open>s.startsWith(p)\<close> at the current position.\<close>

definition startsWith :: "string \<Rightarrow> string \<Rightarrow> bool" where
  "startsWith s p = (take (length p) s = p)"

text \<open>\<open>s.replace(pat, rep)\<close> with a string pattern: only the first occurrence is replaced.\<close>

fun replace_first :: "string \<Rightarrow> string \<Rightarrow> string \<Rightarrow> string" where
  "replace_first pat rep [] = (if pat = [] then rep else [])"
| "replace_first pat rep (c # cs) =
     (if startsWith (c # cs) pat then rep @ drop (length pat) (c # cs)
      else c # replace_first pat rep cs)"

text \<open>\<open>s.includes(p)\<close>.\<close>

fun str_includes :: "string \<Rightarrow> string \<Rightarrow> bool" where
  "str_includes [] p = (p = [])"
| "str_includes (c # cs) p = (startsWith (c # cs) p \<or> str_includes cs p)"

section \<open>The environment\<close>

text \<open>\<open>process.env\<close>: a dictionary from variable names to strings.\<close>

type_synonym process_env = "string \<rightharpoonup> string"

text \<open>What \<open>new URL(s)\<close> throws on a string that is not a URL.\<close>

datatype error = TypeError_InvalidURL

section \<open>SecurityHeaders\<close>

text \<open>
  A source expression in single quotes: \<open>quoted ''self''\<close> is the JavaScript
  string \<open>"'self'"\<close>.
\<close>

definition quoted :: "string \<Rightarrow> string" where
  "quoted s = CHR 0x27 # s @ [CHR 0x27]"

text \<open>
  The local array \<open>scriptSources\<close> of \<open>SecurityHeaders.buildScriptSrc\<close> at the point
  where it is joined: the static sources, then the pushes of the two \<open>if\<close> statements.
\<close>

definition scriptSources_static :: "string list" where
  "scriptSources_static =
    [quoted ''self'',
     quoted ''sha256-n46vPwSWuMC0W703pBofImv82Z26xo4LXymv0E9caPk='',
     ''https://www.googletagmanager.com'',
     ''https://www.google-analytics.com'',
     ''https://googleads.g.doubleclick.net'',
     ''https://www.google.com'',
     ''https://accounts.google.com'',
     ''https://apis.google.com'',
     ''https://accounts.google.com'',
     ''https://oauth2.googleapis.com'',
     ''https://www.googleapis.com'',
     ''https://identitytoolkit.googleapis.com'',
     ''https://securetoken.googleapis.com'',
     ''https://js.stripe.com'',
     ''https://checkout.stripe.com'',
     ''https://va.vercel-scripts.com'']"

definition scriptSources :: "string option \<Rightarrow> bool \<Rightarrow> string list" where
  "scriptSources nonce isDev =
     scriptSources_static
     @ (if isDev then [quoted ''unsafe-eval''] else [])
     @ (if truthy nonce then [quoted (''nonce-'' @ the nonce), quoted ''strict-dynamic'']
        else if isDev then [quoted ''unsafe-inline'']
        else [])"

definition buildScriptSrc :: "string option \<Rightarrow> bool \<Rightarrow> string" where
  "buildScriptSrc nonce isDev = ''script-src '' @ join '' '' (scriptSources nonce isDev)"

definition buildStyleSrc :: string where
  "buildStyleSrc = ''style-src '' @ join '' ''
    [quoted ''self'',
     quoted ''unsafe-inline'',
     ''https://fonts.googleapis.com'',
     ''https://checkout.stripe.com'',
     ''https://accounts.google.com'']"

text \<open>
  \<open>getExternalDomains\<close>. \<open>new URL(s).origin\<close> is the platform's URL parser, taken as
  the parameter \<open>url_origin\<close>; it is \<open>None\<close> where the constructor throws a TypeError.
\<close>

record cdn_domains =
  cloudfront :: "string option"
  cloudflare :: "string option"
  custom :: "string option"

record external_domains =
  supabase :: string
  sanity :: string
  stripe :: "string list"
  cdn :: cdn_domains

definition getExternalDomains ::
  "(string \<Rightarrow> string option) \<Rightarrow> process_env \<Rightarrow> error + external_domains" where
  "getExternalDomains url_origin env =
    (case (if truthy (env ''NEXT_PUBLIC_SUPABASE_URL'')
           then url_origin (the (env ''NEXT_PUBLIC_SUPABASE_URL''))
           else Some ''https://*.supabase.co'') of
       None \<Rightarrow> Inl TypeError_InvalidURL
     | Some supa \<Rightarrow> Inr \<lparr>
         supabase = supa,
         sanity = (if truthy (env ''NEXT_PUBLIC_SANITY_PROJECT_ID'')
                   then ''https://'' @ the (env ''NEXT_PUBLIC_SANITY_PROJECT_ID'') @ ''.api.sanity.io''
                   else ''https://*.sanity.io''),
         stripe = (if env ''NODE_ENV'' = Some ''production''
                   then [''https://js.stripe.com'', ''https://checkout.stripe.com'']
                   else [''https://js.stripe.com'', ''https://checkout.stripe.com'']),
         cdn = \<lparr> cloudfront = env ''NEXT_PUBLIC_CLOUDFRONT_URL'',
                 cloudflare = env ''NEXT_PUBLIC_CLOUDFLARE_URL'',
                 custom = env ''NEXT_PUBLIC_CDN_URL'' \<rparr> \<rparr>)"

text \<open>The spread \<open>...(x ? [x] : [])\<close>.\<close>

definition spread_if :: "string option \<Rightarrow> string list" where
  "spread_if x = (if truthy x then [the x] else [])"

definition buildImgSrc :: "(string \<Rightarrow> string option) \<Rightarrow> process_env \<Rightarrow> error + string" where
  "buildImgSrc url_origin env =
    (case getExternalDomains url_origin env of
       Inl e \<Rightarrow> Inl e
     | Inr domains \<Rightarrow> Inr (''img-src '' @ join '' ''
        ([quoted ''self'', ''blob:'', ''data:'', ''https:'']
         @ spread_if (cloudfront (cdn domains))
         @ spread_if (cloudflare (cdn domains))
         @ spread_if (custom (cdn domains))
         @ [supabase domains,
            ''https://*.supabase.co'',
            ''https://*.googleusercontent.com'',
            ''https://*.googleapis.com'',
            ''https://lh3.googleusercontent.com'',
            ''https://*.amazonaws.com'',
            ''https://*.s3.amazonaws.com'',
            ''https://s3.amazonaws.com'',
            ''https://*.digitaloceanspaces.com'',
            ''https://*.sanity.io'',
            ''https://cdn.sanity.io'',
            ''https://googleads.g.doubleclick.net'',
            ''https://www.google.com'',
            ''https://ssl.gstatic.com'',
            ''https://www.gstatic.com'',
            ''https://checkout.stripe.com'',
            ''https://q.stripe.com''])))"

definition buildFontSrc :: string where
  "buildFontSrc = ''font-src '' @ join '' ''
    [quoted ''self'', ''https://fonts.gstatic.com'', ''https://fonts.googleapis.com'']"

definition buildConnectSrc ::
  "(string \<Rightarrow> string option) \<Rightarrow> process_env \<Rightarrow> bool \<Rightarrow> error + string" where
  "buildConnectSrc url_origin env isDev =
    (case getExternalDomains url_origin env of
       Inl e \<Rightarrow> Inl e
     | Inr domains \<Rightarrow> Inr (''connect-src '' @ join '' ''
        ([quoted ''self'']
         @ spread_if (cloudfront (cdn domains))
         @ spread_if (cloudflare (cdn domains))
         @ spread_if (custom (cdn domains))
         @ [supabase domains,
            replace_first ''https://'' ''wss://'' (supabase domains),
            sanity domains,
            ''https://*.apicdn.sanity.io'',
            ''https://cdn.sanity.io'',
            ''https://www.google-analytics.com'',
            ''https://analytics.google.com'',
            ''https://www.googletagmanager.com'',
            ''https://accounts.google.com'',
            ''https://apis.google.com'',
            ''https://region1.google-analytics.com'',
            ''https://www.google.com'',
            ''https://oauth2.googleapis.com'',
            ''https://www.googleapis.com'',
            ''https://identitytoolkit.googleapis.com'',
            ''https://securetoken.googleapis.com'',
            ''https://identitytoolkit.googleapis.com'',
            ''https://api.stripe.com'',
            ''https://events.stripe.com'',
            ''https://m.stripe.com'']
         @ stripe domains
         @ [''https://*.amazonaws.com'',
            ''https://*.s3.amazonaws.com'',
            ''https://s3.amazonaws.com'',
            ''https://*.digitaloceanspaces.com'',
            ''https://*.redislabs.com'',
            ''https://*.redis.cloud'',
            ''https://vitals.vercel-insights.com'',
            ''https://vitals.vercel-analytics.com'']
         @ (if isDev
            then [''http://localhost:*'', ''ws://localhost:*'', ''wss://localhost:*'',
                  ''http://127.0.0.1:*'']
            else []))))"

definition buildFrameSrc :: string where
  "buildFrameSrc = ''frame-src '' @ join '' ''
    [quoted ''self'',
     ''https://accounts.google.com'',
     ''https://www.google.com'',
     ''https://checkout.stripe.com'',
     ''https://js.stripe.com'',
     ''https://googleads.g.doubleclick.net'',
     ''https://tpc.googlesyndication.com'']"

text \<open>
  \<open>SecurityHeaders.generateCSP(nonce, isDevelopment)\<close>. The array literal evaluates its
  elements in order, so the first call that throws (\<open>buildImgSrc\<close>, then
  \<open>buildConnectSrc\<close>) ends the function.
\<close>

definition generateCSP ::
  "(string \<Rightarrow> string option) \<Rightarrow> process_env \<Rightarrow> string option \<Rightarrow> bool \<Rightarrow> error + string" where
  "generateCSP url_origin env nonce isDev =
    (case buildImgSrc url_origin env of
       Inl e \<Rightarrow> Inl e
     | Inr img \<Rightarrow>
        (case buildConnectSrc url_origin env isDev of
           Inl e \<Rightarrow> Inl e
         | Inr conn \<Rightarrow> Inr (join ''; ''
            ([''default-src '' @ quoted ''self'',
              buildScriptSrc nonce isDev,
              buildStyleSrc,
              img,
              buildFontSrc,
              conn,
              buildFrameSrc,
              ''object-src '' @ quoted ''none'',
              ''base-uri '' @ quoted ''self'',
              ''form-action '' @ quoted ''self'',
              ''frame-ancestors '' @ quoted ''none'',
              ''block-all-mixed-content'']
             @ (if isDev then [] else [''upgrade-insecure-requests''])))))"

text \<open>
  \<open>SecurityHeaders.getSecurityHeaders(nonce)\<close>. The \<open>Record<string, string>\<close> is an
  association list in insertion order; assigning to an existing key keeps its place
  (\<^const>\<open>AList.update\<close>).
\<close>

type_synonym headers = "(string \<times> string) list"

definition getSecurityHeaders ::
  "(string \<Rightarrow> string option) \<Rightarrow> process_env \<Rightarrow> string option \<Rightarrow> error + headers" where
  "getSecurityHeaders url_origin env nonce =
    (let isDev = (env ''NODE_ENV'' = Some ''development'');
         headers0 =
           [(''X-Content-Type-Options'', ''nosniff''),
            (''X-XSS-Protection'', ''1; mode=block''),
            (''Referrer-Policy'', ''strict-origin-when-cross-origin''),
            (''X-Frame-Options'', ''DENY''),
            (''Permissions-Policy'', ''geolocation=(), microphone=(), camera=()'')];
         headers1 =
           (if \<not> isDev
            then AList.update ''X-DNS-Prefetch-Control'' ''off''
                   (AList.update ''Strict-Transport-Security''
                      ''max-age=63072000; includeSubDomains; preload'' headers0)
            else AList.update ''X-Frame-Options'' ''SAMEORIGIN'' headers0)
     in case generateCSP url_origin env nonce isDev of
          Inl e \<Rightarrow> Inl e
        | Inr csp \<Rightarrow> Inr (AList.update ''Content-Security-Policy'' csp headers1))"

section \<open>CSRFProtection\<close>

subsection \<open>generateToken\<close>

text \<open>\<open>s.replace(/c/g, r)\<close> for a single-character pattern \<open>c\<close>.\<close>

definition replace_all_char :: "char \<Rightarrow> string \<Rightarrow> string \<Rightarrow> string" where
  "replace_all_char c r s = concat (map (\<lambda>x. if x = c then r else [x]) s)"

text \<open>
  \<open>btoa\<close>: standard base64 of the string's characters read as bytes, three bytes to
  four characters, padded with \<open>=\<close>. (\<open>btoa\<close> throws on a code point above U+00FF;
  there is none in a \<^typ>\<open>string\<close>.)
\<close>

definition base64_alphabet :: string where
  "base64_alphabet = ''ABCDEFGHIJKLMNOPQRSTUVWXYZabcdefghijklmnopqrstuvwxyz0123456789+/''"

definition b64 :: "nat \<Rightarrow> char" where
  "b64 n = base64_alphabet ! (n mod 64)"

fun btoa :: "string \<Rightarrow> string" where
  "btoa [] = []"
| "btoa [a] =
     [b64 (of_char a div 4), b64 ((of_char a mod 4) * 16), CHR ''='', CHR ''='']"
| "btoa [a, b] =
     [b64 (of_char a div 4),
      b64 ((of_char a mod 4) * 16 + of_char b div 16),
      b64 ((of_char b mod 16) * 4),
      CHR ''='']"
| "btoa (a # b # c # rest) =
     [b64 (of_char a div 4),
      b64 ((of_char a mod 4) * 16 + of_char b div 16),
      b64 ((of_char b mod 16) * 4 + of_char c div 64),
      b64 (of_char c mod 64)] @ btoa rest"

text \<open>
  \<open>CSRFProtection.generateToken\<close>. The two results of \<open>crypto.randomUUID()\<close> are the
  parameters \<open>uuid1\<close> and \<open>uuid2\<close>, in the order of the calls.
\<close>

definition generateToken :: "string \<Rightarrow> string \<Rightarrow> string" where
  "generateToken uuid1 uuid2 =
    (let u1 = replace_all_char CHR ''-'' [] uuid1;
         u2 = replace_all_char CHR ''-'' [] uuid2;
         combined = u1 @ u2;
         base64 = btoa combined
     in take 43
          (replace_all_char CHR ''='' []
            (replace_all_char CHR ''/'' ''_''
              (replace_all_char CHR ''+'' ''-'' base64))))"

text \<open>
  What \<open>crypto.randomUUID()\<close> returns: a version 4 UUID in its canonical text form,
  36 characters, lower-case hexadecimal digits in groups of 8-4-4-4-12 separated by
  hyphens, the version digit \<open>4\<close> and the variant digit one of \<open>8 9 a b\<close>.
\<close>

definition is_hex :: "char \<Rightarrow> bool" where
  "is_hex c = (c \<in> set ''0123456789abcdef'')"

definition is_uuid :: "string \<Rightarrow> bool" where
  "is_uuid u =
    (length u = 36
     \<and> list_all is_hex (take 8 u) \<and> u ! 8 = CHR ''-''
     \<and> list_all is_hex (take 4 (drop 9 u)) \<and> u ! 13 = CHR ''-''
     \<and> list_all is_hex (take 4 (drop 14 u)) \<and> u ! 18 = CHR ''-''
     \<and> list_all is_hex (take 4 (drop 19 u)) \<and> u ! 23 = CHR ''-''
     \<and> list_all is_hex (drop 24 u)
     \<and> u ! 14 = CHR ''4''
     \<and> u ! 19 \<in> set ''89ab'')"

subsection \<open>Cookies\<close>

text \<open>
  The cookie store of \<open>next/headers\<close>. \<open>await cookies()\<close> throws outside a request
  scope (\<open>cookies_available\<close> is false), and \<open>cookieStore.set\<close> throws where cookies
  are read-only (\<open>jar_writable\<close> is false).
\<close>

record cookie =
  cvalue :: string
  httpOnly :: bool
  secure :: bool
  sameSite :: string
  path :: string
  maxAge :: nat

record request_ctx =
  env :: process_env
  cookies_available :: bool
  jar_writable :: bool
  jar :: "string \<rightharpoonup> cookie"

datatype cookie_error = CookiesUnavailable | CookiesReadOnly

definition CSRF_COOKIE_NAME :: "process_env \<Rightarrow> string" where
  "CSRF_COOKIE_NAME e =
    (if e ''NODE_ENV'' = Some ''production'' then ''csrf-token-secure'' else ''csrf-token'')"

text \<open>\<open>cookieStore.get(name)?.value\<close>.\<close>

definition cookie_value :: "request_ctx \<Rightarrow> string \<Rightarrow> string option" where
  "cookie_value ctx name = map_option cvalue (jar ctx name)"

definition setToken :: "request_ctx \<Rightarrow> string \<Rightarrow> cookie_error + request_ctx" where
  "setToken ctx token =
    (if \<not> cookies_available ctx then Inl CookiesUnavailable
     else if \<not> jar_writable ctx then Inl CookiesReadOnly
     else
       let isProd = (env ctx ''NODE_ENV'' = Some ''production'');
           name = CSRF_COOKIE_NAME (env ctx);
           c = \<lparr> cvalue = token, httpOnly = True, secure = isProd,
                 sameSite = ''strict'', path = ''/'', maxAge = 60 * 60 * 24 \<rparr>;
           j1 = (jar ctx)(name \<mapsto> c);
           j2 = j1(name @ ''-backup'' \<mapsto> c);
           j3 = (if \<not> isProd then j2(name @ ''-debug'' \<mapsto> c\<lparr>httpOnly := False\<rparr>) else j2)
       in Inr (ctx\<lparr>jar := j3\<rparr>))"

text \<open>
  \<open>CSRFProtection.getTokenFromCookie\<close>; the \<open>catch\<close> turns a throwing
  \<open>cookies()\<close> into \<open>null\<close>.
\<close>

definition getTokenFromCookie :: "request_ctx \<Rightarrow> string option" where
  "getTokenFromCookie ctx =
    (if \<not> cookies_available ctx then None
     else
       let isProd = (env ctx ''NODE_ENV'' = Some ''production'');
           name = CSRF_COOKIE_NAME (env ctx);
           token0 = or_null (cookie_value ctx name);
           token1 = (if \<not> truthy token0
                     then or_null (cookie_value ctx (name @ ''-backup''))
                     else token0);
           token2 = (if \<not> truthy token1 \<and> \<not> isProd
                     then or_null (cookie_value ctx (name @ ''-debug''))
                     else token1)
       in token2)"

subsection \<open>timingSafeEqual and validateToken\<close>

type_synonym byte = "8 word"

text \<open>\<open>new TextEncoder().encode(s)\<close>: the UTF-8 bytes of the code points.\<close>

definition utf8_char :: "char \<Rightarrow> byte list" where
  "utf8_char c =
    (let n = (of_char c :: nat)
     in if n < 128 then [of_nat n]
        else [of_nat (192 + n div 64), of_nat (128 + n mod 64)])"

definition utf8_encode :: "string \<Rightarrow> byte list" where
  "utf8_encode s = concat (map utf8_char s)"

text \<open>
  Web Crypto is a parameter: \<open>generateKey\<close> is the key that
  \<open>crypto.subtle.generateKey\<close> returns (\<open>None\<close> when it rejects), and \<open>sign k m\<close> is
  the HMAC-SHA256 signature of \<open>m\<close> under \<open>k\<close> (\<open>None\<close> when \<open>crypto.subtle.sign\<close>
  rejects). \<open>uuid1\<close> and \<open>uuid2\<close> are the next two results of \<open>crypto.randomUUID()\<close>.
\<close>

record 'k platform =
  generateKey :: "'k option"
  sign :: "'k \<Rightarrow> byte list \<Rightarrow> byte list option"
  uuid1 :: string
  uuid2 :: string

text \<open>
  The loop \<open>for (i = 0; i < sigA.length; i++) result |= sigA[i] ^ sigB[i]\<close>: it runs
  over \<open>sigA\<close>; past the end of \<open>sigB\<close> the read is \<open>undefined\<close>, which \<open>^\<close> takes as 0.
\<close>

fun xor_loop :: "byte \<Rightarrow> byte list \<Rightarrow> byte list \<Rightarrow> byte" where
  "xor_loop result [] sigB = result"
| "xor_loop result (a # sigA) [] = xor_loop (result OR (a XOR 0)) sigA []"
| "xor_loop result (a # sigA) (b # sigB) = xor_loop (result OR (a XOR b)) sigA sigB"

text \<open>\<open>timingSafeEqual\<close>; \<open>None\<close> when it throws.\<close>

definition timingSafeEqual :: "'k platform \<Rightarrow> string \<Rightarrow> string \<Rightarrow> bool option" where
  "timingSafeEqual p a b =
    (case generateKey p of
       None \<Rightarrow> None
     | Some key \<Rightarrow>
        (case sign p key (utf8_encode a) of
           None \<Rightarrow> None
         | Some sigA \<Rightarrow>
            (case sign p key (utf8_encode b) of
               None \<Rightarrow> None
             | Some sigB \<Rightarrow> Some (xor_loop 0 sigA sigB = 0))))"

text \<open>
  \<open>CSRFProtection.validateToken\<close>: the result and the request context after the call
  (the recovery writes cookies).
\<close>

definition validateToken ::
  "'k platform \<Rightarrow> request_ctx \<Rightarrow> string option \<Rightarrow> bool \<times> request_ctx" where
  "validateToken p ctx submittedToken =
    (if \<not> truthy submittedToken then (False, ctx)
     else
       let cookieToken = getTokenFromCookie ctx
       in if \<not> truthy cookieToken then
            (case setToken ctx (generateToken (uuid1 p) (uuid2 p)) of
               Inr ctx' \<Rightarrow> (False, ctx')
             | Inl e \<Rightarrow> (False, ctx))
          else
            (case timingSafeEqual p (the submittedToken) (the cookieToken) of
               Some isValid \<Rightarrow> (isValid, ctx)
             | None \<Rightarrow> (False, ctx)))"

subsection \<open>withCSRFProtection\<close>

text \<open>
  A \<open>FormData\<close> is the list of its entries in order; \<open>get\<close> returns the first value of
  the name. A value is a string or a \<open>File\<close>.
\<close>

datatype form_value = FormString string | FormFile

type_synonym form_data = "(string \<times> form_value) list"

datatype 'a arg = FormDataArg form_data | OtherArg 'a

text \<open>
  \<open>CSRFProtection.getTokenFromFormData\<close>: \<open>formData.get("csrf_token") as string | null\<close>.
  The cast does nothing at run time; a \<open>File\<close> is a truthy object that the
  \<open>TextEncoder\<close> reads through its string conversion \<open>[object File]\<close>, so it is
  carried as that string.
\<close>

definition getTokenFromFormData :: "form_data \<Rightarrow> string option" where
  "getTokenFromFormData formData =
    (case map_of formData ''csrf_token'' of
       None \<Rightarrow> None
     | Some (FormString s) \<Rightarrow> Some s
     | Some FormFile \<Rightarrow> Some ''[object File]'')"

text \<open>
  What a call can throw: a \<open>SecureActionError\<close> (message, code, statusCode), an object
  with a string \<open>digest\<close> property (Next.js redirects carry one), or anything else.
\<close>

datatype thrown =
    SecureActionError string string nat
  | DigestError string
  | OtherError

text \<open>The \<open>catch\<close> block of the wrapper: what it throws for what it caught.\<close>

fun rethrow :: "thrown \<Rightarrow> thrown" where
  "rethrow (DigestError d) =
     (if str_includes d ''NEXT_REDIRECT'' then DigestError d
      else SecureActionError ''Action failed'' ''ACTION_ERROR'' 500)"
| "rethrow (SecureActionError m c st) = SecureActionError m c st"
| "rethrow OtherError = SecureActionError ''Action failed'' ''ACTION_ERROR'' 500"

text \<open>\<open>args.find(arg => arg instanceof FormData)\<close>.\<close>

fun find_FormData :: "'a arg list \<Rightarrow> form_data option" where
  "find_FormData [] = None"
| "find_FormData (FormDataArg fd # args) = Some fd"
| "find_FormData (OtherArg x # args) = find_FormData args"

text \<open>
  The function that \<open>withCSRFProtection(action)\<close> returns, applied to \<open>args\<close>. Its
  result records the outcome (\<open>Inl\<close> what it throws, \<open>Inr\<close> what it returns), the
  argument lists with which the underlying action was invoked, and the request context
  after the call.
\<close>

record ('a, 'r) wrapped_result =
  outcome :: "thrown + 'r"
  invocations :: "'a arg list list"
  ctx_after :: request_ctx

definition withCSRFProtection ::
  "('a arg list \<Rightarrow> thrown + 'r) \<Rightarrow> 'k platform \<Rightarrow> request_ctx \<Rightarrow> 'a arg list
     \<Rightarrow> ('a, 'r) wrapped_result" where
  "withCSRFProtection action p ctx args =
    (case find_FormData args of
       None \<Rightarrow>
         \<lparr> outcome = Inl (rethrow
               (SecureActionError ''CSRF protection requires FormData'' ''CSRF_NO_FORM_DATA'' 400)),
           invocations = [], ctx_after = ctx \<rparr>
     | Some formData \<Rightarrow>
         (case validateToken p ctx (getTokenFromFormData formData) of
            (isValid, ctx') \<Rightarrow>
              if \<not> isValid then
                \<lparr> outcome = Inl (rethrow
                      (SecureActionError ''Invalid CSRF token'' ''CSRF_TOKEN_INVALID'' 403)),
                  invocations = [], ctx_after = ctx' \<rparr>
              else
                (case action args of
                   Inr r \<Rightarrow> \<lparr> outcome = Inr r, invocations = [args], ctx_after = ctx' \<rparr>
                 | Inl e \<Rightarrow>
                     \<lparr> outcome = Inl (rethrow e), invocations = [args], ctx_after = ctx' \<rparr>)))"

section \<open>The cache module\<close>

subsection \<open>MemoryCache\<close>

text \<open>
  The \<open>Map<string, { value, expires }>\<close> of \<open>MemoryCache\<close>. Times are the integer
  milliseconds of \<open>Date.now()\<close>, and every operation takes the \<open>Date.now()\<close> of its
  call as \<open>now\<close>. A ttl is a number of seconds; the parameter's default is 300.
\<close>

record cache_entry =
  val :: string
  expires :: int

type_synonym memory_cache = "string \<rightharpoonup> cache_entry"

definition cache_get :: "memory_cache \<Rightarrow> int \<Rightarrow> string \<Rightarrow> string option \<times> memory_cache" where
  "cache_get cache now key =
    (case cache key of
       None \<Rightarrow> (None, cache(key := None))
     | Some entry \<Rightarrow>
         if expires entry < now then (None, cache(key := None))
         else (Some (val entry), cache))"

definition cache_set ::
  "memory_cache \<Rightarrow> int \<Rightarrow> string \<Rightarrow> string \<Rightarrow> int option \<Rightarrow> memory_cache" where
  "cache_set cache now key v ttl =
    cache(key \<mapsto> \<lparr> val = v, expires = now + (case ttl of None \<Rightarrow> 300 | Some t \<Rightarrow> t) * 1000 \<rparr>)"

definition cache_del :: "memory_cache \<Rightarrow> string \<Rightarrow> memory_cache" where
  "cache_del cache key = cache(key := None)"

text \<open>A call of the cache with the time at which it is made, and a run of such calls.\<close>

datatype cache_op =
    CacheGet string
  | CacheSet string string "int option"
  | CacheDel string

fun cache_step :: "memory_cache \<Rightarrow> int \<times> cache_op \<Rightarrow> memory_cache" where
  "cache_step cache (now, CacheGet key) = snd (cache_get cache now key)"
| "cache_step cache (now, CacheSet key v ttl) = cache_set cache now key v ttl"
| "cache_step cache (now, CacheDel key) = cache_del cache key"

definition cache_run :: "(int \<times> cache_op) list \<Rightarrow> memory_cache" where
  "cache_run ops = foldl cache_step Map.empty ops"

text \<open>The expiry that a \<open>set\<close> at time \<open>t\<close> with \<open>ttl\<close> stores.\<close>

definition expiry_of :: "int \<Rightarrow> int option \<Rightarrow> int" where
  "expiry_of t ttl = t + (case ttl of None \<Rightarrow> 300 | Some s \<Rightarrow> s) * 1000"

subsection \<open>Cache tags and the cached read functions\<close>

datatype cache_tag =
    POSTS | POST_BY_SLUG | POST_BY_ID | CATEGORIES | TAGS | USER_POSTS | RELATED_POSTS
  | SEARCH_RESULTS | USER_BOOKMARKS | USER_FAVORITES | POPULAR_POSTS | ANALYTICS

fun CACHE_TAGS :: "cache_tag \<Rightarrow> string" where
  "CACHE_TAGS POSTS = ''posts''"
| "CACHE_TAGS POST_BY_SLUG = ''post-by-slug''"
| "CACHE_TAGS POST_BY_ID = ''post-by-id''"
| "CACHE_TAGS CATEGORIES = ''categories''"
| "CACHE_TAGS TAGS = ''tags''"
| "CACHE_TAGS USER_POSTS = ''user-posts''"
| "CACHE_TAGS RELATED_POSTS = ''related-posts''"
| "CACHE_TAGS SEARCH_RESULTS = ''search-results''"
| "CACHE_TAGS USER_BOOKMARKS = ''user-bookmarks''"
| "CACHE_TAGS USER_FAVORITES = ''user-favorites''"
| "CACHE_TAGS POPULAR_POSTS = ''popular-posts''"
| "CACHE_TAGS ANALYTICS = ''analytics''"

text \<open>
  \<open>createCachedFunction(fn, keyPrefix, revalidate, tags)\<close> registers every entry of the
  cached function under \<open>allTags = [...tags, keyPrefix]\<close>.
\<close>

record cached_function =
  keyPrefix :: string
  tags :: "string list"

definition allTags :: "cached_function \<Rightarrow> string list" where
  "allTags f = tags f @ [keyPrefix f]"

text \<open>The cached read functions of \<open>lib/query.ts\<close> that return post data.\<close>

definition getCachedPosts :: cached_function where
  "getCachedPosts = \<lparr> keyPrefix = ''posts-paginated'', tags = [CACHE_TAGS POSTS] \<rparr>"

definition getCachedPostSearch :: cached_function where
  "getCachedPostSearch =
     \<lparr> keyPrefix = ''posts-search'', tags = [CACHE_TAGS SEARCH_RESULTS, CACHE_TAGS POSTS] \<rparr>"

definition getCachedRelatedPosts :: cached_function where
  "getCachedRelatedPosts = \<lparr> keyPrefix = ''related-posts'', tags = [CACHE_TAGS RELATED_POSTS] \<rparr>"

definition getCachedPostById :: cached_function where
  "getCachedPostById = \<lparr> keyPrefix = ''post-by-id'', tags = [CACHE_TAGS POST_BY_ID] \<rparr>"

definition getCachedPostBySlug :: cached_function where
  "getCachedPostBySlug = \<lparr> keyPrefix = ''post-by-slug'', tags = [CACHE_TAGS POST_BY_SLUG] \<rparr>"

definition getCachedPopularPosts :: cached_function where
  "getCachedPopularPosts = \<lparr> keyPrefix = ''popular-posts'', tags = [CACHE_TAGS POPULAR_POSTS] \<rparr>"

definition post_readers :: "cached_function list" where
  "post_readers =
    [getCachedPosts, getCachedPostSearch, getCachedRelatedPosts, getCachedPostById,
     getCachedPostBySlug, getCachedPopularPosts]"

text \<open>
  The post mutation actions, and the array each passes to \<open>revalidateCache\<close> after its
  write. \<open>revalidateCache\<close> calls \<open>revalidateTag\<close> on each element, which invalidates the
  entries registered under that tag.
\<close>

datatype post_action =
    CreatePost | UpdatePost | ApprovePost | RejectPost | DeletePost
  | TogglePostPublish | TogglePostFeatured

fun revalidated_tags :: "post_action \<Rightarrow> string list" where
  "revalidated_tags CreatePost =
     [CACHE_TAGS POSTS, CACHE_TAGS POST_BY_SLUG, CACHE_TAGS POST_BY_ID, CACHE_TAGS CATEGORIES,
      CACHE_TAGS TAGS, CACHE_TAGS SEARCH_RESULTS, CACHE_TAGS USER_POSTS, CACHE_TAGS ANALYTICS]"
| "revalidated_tags UpdatePost =
     [CACHE_TAGS POSTS, CACHE_TAGS POST_BY_ID, CACHE_TAGS POST_BY_SLUG, CACHE_TAGS CATEGORIES,
      CACHE_TAGS TAGS, CACHE_TAGS SEARCH_RESULTS, CACHE_TAGS USER_POSTS, CACHE_TAGS ANALYTICS]"
| "revalidated_tags ApprovePost =
     [CACHE_TAGS POSTS, CACHE_TAGS POST_BY_ID, CACHE_TAGS POST_BY_SLUG, CACHE_TAGS CATEGORIES,
      CACHE_TAGS TAGS, CACHE_TAGS SEARCH_RESULTS, CACHE_TAGS USER_POSTS, CACHE_TAGS ANALYTICS]"
| "revalidated_tags RejectPost =
     [CACHE_TAGS POSTS, CACHE_TAGS POST_BY_ID, CACHE_TAGS POST_BY_SLUG, CACHE_TAGS CATEGORIES,
      CACHE_TAGS TAGS, CACHE_TAGS SEARCH_RESULTS, CACHE_TAGS USER_POSTS, CACHE_TAGS ANALYTICS]"
| "revalidated_tags DeletePost =
     [CACHE_TAGS POSTS, CACHE_TAGS POST_BY_ID, CACHE_TAGS POST_BY_SLUG, CACHE_TAGS CATEGORIES,
      CACHE_TAGS TAGS, CACHE_TAGS SEARCH_RESULTS, CACHE_TAGS USER_POSTS, CACHE_TAGS ANALYTICS]"
| "revalidated_tags TogglePostPublish =
     [CACHE_TAGS POSTS, CACHE_TAGS POST_BY_ID, CACHE_TAGS POST_BY_SLUG, CACHE_TAGS CATEGORIES,
      CACHE_TAGS TAGS, CACHE_TAGS SEARCH_RESULTS, CACHE_TAGS USER_POSTS, CACHE_TAGS ANALYTICS]"
| "revalidated_tags TogglePostFeatured =
     [CACHE_TAGS POSTS, CACHE_TAGS POST_BY_ID, CACHE_TAGS POST_BY_SLUG, CACHE_TAGS CATEGORIES,
      CACHE_TAGS TAGS, CACHE_TAGS SEARCH_RESULTS, CACHE_TAGS USER_POSTS, CACHE_TAGS ANALYTICS]"

text \<open>
  An action invalidates a cached function's entries when it revalidates one of the tags
  they are registered under.
\<close>

definition invalidates :: "post_action \<Rightarrow> cached_function \<Rightarrow> bool" where
  "invalidates a f = list_ex (\<lambda>t. t \<in> set (revalidated_tags a)) (allTags f)"

subsection \<open>Cache key generators\<close>













definition is_space :: "char \<Rightarrow> bool" where
  "is_space c = ((of_char c :: nat) \<in> {9, 10, 11, 12, 13, 32, 160})"







section \<open>Auxiliary notions of the proofs\<close>

text \<open>The URL-safe base64 alphabet \<open>[A-Za-z0-9_-]\<close>.\<close>

definition url_alphabet :: string where
  "url_alphabet = ''ABCDEFGHIJKLMNOPQRSTUVWXYZabcdefghijklmnopqrstuvwxyz0123456789-_''"

text \<open>The three replacements of \<open>generateToken\<close> on a whole string, and on one character.\<close>

definition to_url :: "string \<Rightarrow> string" where
  "to_url s =
    replace_all_char CHR ''='' []
      (replace_all_char CHR ''/'' ''_'' (replace_all_char CHR ''+'' ''-'' s))"

definition url_char :: "char \<Rightarrow> char" where
  "url_char c = (if c = CHR ''+'' then CHR ''-'' else if c = CHR ''/'' then CHR ''_'' else c)"

text \<open>
  The source expressions of a directive string: what follows the directive's name when
  the string is split at the spaces that \<open>join(" ")\<close> put between the sources.
\<close>

definition directive_sources :: "string \<Rightarrow> string list" where
  "directive_sources directive = tl (split_on CHR '' '' directive)"

text \<open>An optional nonce without a white-space character (\<open>\s\<close>).\<close>

definition no_white_space :: "string option \<Rightarrow> bool" where
  "no_white_space nonce =
     (case nonce of None \<Rightarrow> True | Some v \<Rightarrow> list_all (\<lambda>c. \<not> is_space c) v)"






text \<open>The variables of \<open>process.env\<close> that \<open>SecurityHeaders\<close> reads.\<close>

definition env_vars_read :: "string list" where
  "env_vars_read =
    [''NODE_ENV'', ''NEXT_PUBLIC_SUPABASE_URL'', ''NEXT_PUBLIC_SANITY_PROJECT_ID'',
     ''NEXT_PUBLIC_CLOUDFRONT_URL'', ''NEXT_PUBLIC_CLOUDFLARE_URL'', ''NEXT_PUBLIC_CDN_URL'']"

text \<open>Concrete inputs of the closed evaluations below.\<close>

definition env_production :: process_env where
  "env_production = [''NODE_ENV'' \<mapsto> ''production'']"

definition env_production_home :: process_env where
  "env_production_home = [''NODE_ENV'' \<mapsto> ''production'', ''HOME'' \<mapsto> ''/root'']"

definition env_development :: process_env where
  "env_development = [''NODE_ENV'' \<mapsto> ''development'']"

text \<open>A cookie with the value \<open>abc\<close>.\<close>

definition cookie_abc :: cookie where
  "cookie_abc = \<lparr> cvalue = ''abc'', httpOnly = False, secure = False,
                     sameSite = ''strict'', path = ''/'', maxAge = 86400 \<rparr>"

definition ctx_no_cookies :: "bool \<Rightarrow> request_ctx" where
  "ctx_no_cookies writable =
     \<lparr> env = env_production, cookies_available = True, jar_writable = writable,
       jar = Map.empty \<rparr>"

definition ctx_debug_only :: request_ctx where
  "ctx_debug_only =
     \<lparr> env = env_development, cookies_available = True, jar_writable = True,
       jar = [''csrf-token-debug'' \<mapsto> cookie_abc] \<rparr>"

definition ctx_backup_only :: request_ctx where
  "ctx_backup_only =
     \<lparr> env = env_production, cookies_available = True, jar_writable = True,
       jar = [''csrf-token-secure'' \<mapsto> cookie_abc\<lparr>cvalue := []\<rparr>,
              ''csrf-token-secure-backup'' \<mapsto> cookie_abc\<lparr>cvalue := ''xyz''\<rparr>] \<rparr>"

text \<open>The nonce \<open>a b' 'unsafe-inline\<close>.\<close>

definition injecting_nonce :: string where
  "injecting_nonce = ''a b' 'unsafe-inline''"

definition uuid_a :: string where "uuid_a = ''3f2b8c1e-9d4a-4e7b-8a6f-1c2d3e4f5a6b''"
definition uuid_b :: string where "uuid_b = ''0b7e6f5a-1c2d-4b3a-9f8e-7d6c5b4a3f2e''"
definition uuid_c :: string where "uuid_c = ''5d9c2a7f-8e1b-4c6d-b3a2-0f1e2d3c4b5a''"

text \<open>A platform whose signature of a message is the message itself.\<close>

definition test_platform :: "unit platform" where
  "test_platform =
     \<lparr> generateKey = Some (), sign = (\<lambda>k m. Some m), uuid1 = uuid_a, uuid2 = uuid_b \<rparr>"

definition ctx_with_token :: request_ctx where
  "ctx_with_token =
     \<lparr> env = env_production, cookies_available = True, jar_writable = True,
       jar = [''csrf-token-secure'' \<mapsto> cookie_abc\<lparr>httpOnly := True, secure := True\<rparr>] \<rparr>"

text \<open>An action that returns the number of its arguments.\<close>

definition count_action :: "nat arg list \<Rightarrow> thrown + nat" where
  "count_action args = Inr (length args)"

definition args_no_form :: "nat arg list" where
  "args_no_form = [OtherArg 1]"

definition args_bad_token :: "nat arg list" where
  "args_bad_token = [OtherArg 1, FormDataArg [(''csrf_token'', FormString ''abd'')]]"

definition args_good_token :: "nat arg list" where
  "args_good_token = [OtherArg 1, FormDataArg [(''csrf_token'', FormString ''abc'')]]"





definition one_set :: "(int \<times> cache_op) list" where
  "one_set = [(0, CacheSet ''k'' ''v'' (Some 1))]"

section \<open>Security headers\<close>

lemma quoted_inj [simp]: "quoted a = quoted b \<longleftrightarrow> a = b"
  by (simp add: quoted_def)

lemma split_on_nonempty: "split_on c s \<noteq> []"
  by (induction s) (auto split: list.splits)

lemma split_on_word: "c \<notin> set w \<Longrightarrow> split_on c w = [w]"
  by (induction w) auto

lemma split_on_append: "split_on c (x @ c # y) = split_on c x @ split_on c y"
  using split_on_nonempty by (induction x) (auto split: list.splits)

lemma split_on_join:
  "ws \<noteq> [] \<Longrightarrow> \<forall>w \<in> set ws. c \<notin> set w \<Longrightarrow> split_on c (join [c] ws) = ws"
proof (induction "[c]" ws rule: join.induct)
  case 1
  then show ?case by simp
next
  case (2 x)
  then show ?case by (simp add: split_on_word)
next
  case (3 x y ys)
  then show ?case by (simp add: split_on_append split_on_word)
qed



lemma scriptSources_no_space:
  assumes "no_white_space nonce"
  shows "\<forall>w \<in> set (scriptSources nonce isDev). CHR '' '' \<notin> set w"
proof -
  have "\<forall>w \<in> set scriptSources_static. CHR '' '' \<notin> set w"
    by (simp add: scriptSources_static_def quoted_def)
  moreover have "case nonce of None \<Rightarrow> True | Some v \<Rightarrow> CHR '' '' \<notin> set v"
    using assms by (cases nonce) (auto simp: no_white_space_def is_space_def list_all_iff)
  ultimately show ?thesis
    by (cases nonce) (auto simp: scriptSources_def quoted_def)
qed

lemma buildScriptSrc_split:
  assumes "no_white_space nonce"
  shows "split_on CHR '' '' (buildScriptSrc nonce isDev)
     = ''script-src'' # scriptSources nonce isDev"
proof -
  have ne: "scriptSources nonce isDev \<noteq> []"
    by (simp add: scriptSources_def scriptSources_static_def)
  have "buildScriptSrc nonce isDev
      = ''script-src'' @ CHR '' '' # join '' '' (scriptSources nonce isDev)"
    by (simp add: buildScriptSrc_def)
  then have "split_on CHR '' '' (buildScriptSrc nonce isDev)
      = split_on CHR '' '' ''script-src''
        @ split_on CHR '' '' (join '' '' (scriptSources nonce isDev))"
    by (simp only: split_on_append)
  moreover have "split_on CHR '' '' ''script-src'' = [''script-src'']"
    by (rule split_on_word) simp
  ultimately show ?thesis
    using split_on_join [OF ne scriptSources_no_space [OF assms]] by simp
qed

text \<open>
  C5 fails as stated: for the nonce \<open>a b' 'unsafe-inline\<close> in production, the
  directive that \<open>buildScriptSrc\<close> returns has the source \<open>'unsafe-inline'\<close>, although
  a nonce is supplied and the environment is not development.
\<close>

theorem buildScriptSrc_injection_counterexample:
  "truthy (Some injecting_nonce)
   \<and> quoted ''unsafe-inline''
       \<in> set (directive_sources (buildScriptSrc (Some injecting_nonce) False))"
  by (simp add: directive_sources_def buildScriptSrc_def scriptSources_def
      scriptSources_static_def quoted_def injecting_nonce_def)

text \<open>
  C5, amended. For every environment flag and every nonce option without white space:
  the directive that \<open>buildScriptSrc\<close> returns is \<open>script-src\<close> followed by its
  sources; \<open>'self'\<close> is always among them; \<open>'nonce-v'\<close> is among them exactly when the
  nonce is the non-empty string \<open>v\<close>, and \<open>'strict-dynamic'\<close> exactly when the nonce is
  a non-empty string, whatever the environment; \<open>'unsafe-inline'\<close> is among them exactly
  when the nonce is absent or empty and the environment is development;
  \<open>'unsafe-eval'\<close> is among them exactly when the environment is development.
\<close>

theorem buildScriptSrc_sources:
  assumes "no_white_space nonce"
  shows "split_on CHR '' '' (buildScriptSrc nonce isDev)
       = ''script-src'' # directive_sources (buildScriptSrc nonce isDev)
   \<and> quoted ''self'' \<in> set (directive_sources (buildScriptSrc nonce isDev))
   \<and> (quoted (''nonce-'' @ v) \<in> set (directive_sources (buildScriptSrc nonce isDev))
        \<longleftrightarrow> nonce = Some v \<and> v \<noteq> [])
   \<and> (quoted ''strict-dynamic'' \<in> set (directive_sources (buildScriptSrc nonce isDev))
        \<longleftrightarrow> truthy nonce)
   \<and> (quoted ''unsafe-inline'' \<in> set (directive_sources (buildScriptSrc nonce isDev))
        \<longleftrightarrow> \<not> truthy nonce \<and> isDev)
   \<and> (quoted ''unsafe-eval'' \<in> set (directive_sources (buildScriptSrc nonce isDev))
        \<longleftrightarrow> isDev)"
proof -
  have d: "split_on CHR '' '' (buildScriptSrc nonce isDev)
      = ''script-src'' # scriptSources nonce isDev"
    using assms by (rule buildScriptSrc_split)
  then have ds: "directive_sources (buildScriptSrc nonce isDev) = scriptSources nonce isDev"
    by (simp add: directive_sources_def)
  have "quoted ''self'' \<in> set (scriptSources nonce isDev)
     \<and> (quoted (''nonce-'' @ v) \<in> set (scriptSources nonce isDev) \<longleftrightarrow> nonce = Some v \<and> v \<noteq> [])
     \<and> (quoted ''strict-dynamic'' \<in> set (scriptSources nonce isDev) \<longleftrightarrow> truthy nonce)
     \<and> (quoted ''unsafe-inline'' \<in> set (scriptSources nonce isDev) \<longleftrightarrow> \<not> truthy nonce \<and> isDev)
     \<and> (quoted ''unsafe-eval'' \<in> set (scriptSources nonce isDev) \<longleftrightarrow> isDev)"
    by (cases nonce) (auto simp: scriptSources_def scriptSources_static_def quoted_def)
  then show ?thesis unfolding ds d by simp
qed

theorem buildScriptSrc_sources_witness:
  "no_white_space (Some ''r4nd0m'') \<and> no_white_space None
   \<and> quoted ''self'' \<in> set (directive_sources (buildScriptSrc (Some ''r4nd0m'') False))
   \<and> quoted ''nonce-r4nd0m'' \<in> set (directive_sources (buildScriptSrc (Some ''r4nd0m'') False))
   \<and> quoted ''strict-dynamic'' \<in> set (directive_sources (buildScriptSrc (Some ''r4nd0m'') False))
   \<and> quoted ''unsafe-inline'' \<notin> set (directive_sources (buildScriptSrc (Some ''r4nd0m'') False))
   \<and> quoted ''unsafe-eval'' \<notin> set (directive_sources (buildScriptSrc (Some ''r4nd0m'') False))
   \<and> quoted ''unsafe-inline'' \<in> set (directive_sources (buildScriptSrc None True))
   \<and> quoted ''unsafe-eval'' \<in> set (directive_sources (buildScriptSrc None True))"
proof -
  have n: "no_white_space (Some ''r4nd0m'')" "no_white_space None"
    by (simp_all add: no_white_space_def is_space_def)
  show ?thesis
    using n buildScriptSrc_sources [OF n(1), of False "''r4nd0m''"]
      buildScriptSrc_sources [OF n(2), of True "[]"]
    by simp
qed

lemma getExternalDomains_cong:
  assumes "list_all (\<lambda>v. env1 v = env2 v) env_vars_read"
  shows "getExternalDomains url_origin env1 = getExternalDomains url_origin env2"
proof -
  have e: "env1 ''NODE_ENV'' = env2 ''NODE_ENV''"
    "env1 ''NEXT_PUBLIC_SUPABASE_URL'' = env2 ''NEXT_PUBLIC_SUPABASE_URL''"
    "env1 ''NEXT_PUBLIC_SANITY_PROJECT_ID'' = env2 ''NEXT_PUBLIC_SANITY_PROJECT_ID''"
    "env1 ''NEXT_PUBLIC_CLOUDFRONT_URL'' = env2 ''NEXT_PUBLIC_CLOUDFRONT_URL''"
    "env1 ''NEXT_PUBLIC_CLOUDFLARE_URL'' = env2 ''NEXT_PUBLIC_CLOUDFLARE_URL''"
    "env1 ''NEXT_PUBLIC_CDN_URL'' = env2 ''NEXT_PUBLIC_CDN_URL''"
    using assms by (simp_all add: env_vars_read_def)
  show ?thesis unfolding getExternalDomains_def e by (rule refl)
qed

text \<open>
  C4. The header map of \<open>getSecurityHeaders\<close> and the string of \<open>generateCSP\<close> are
  functions of the nonce, the development flag and the environment alone, and of the
  environment they read six variables only: two environments that agree on
  \<open>NODE_ENV\<close>, \<open>NEXT_PUBLIC_SUPABASE_URL\<close>, \<open>NEXT_PUBLIC_SANITY_PROJECT_ID\<close>,
  \<open>NEXT_PUBLIC_CLOUDFRONT_URL\<close>, \<open>NEXT_PUBLIC_CLOUDFLARE_URL\<close> and
  \<open>NEXT_PUBLIC_CDN_URL\<close> give, for the same nonce, the same header map and the same CSP
  string (or the same error of the URL parser). In particular two calls with identical
  arguments and identical environment return identical results.
\<close>

theorem security_headers_deterministic:
  assumes "list_all (\<lambda>v. env1 v = env2 v) env_vars_read"
  shows "getSecurityHeaders url_origin env1 nonce = getSecurityHeaders url_origin env2 nonce
     \<and> generateCSP url_origin env1 nonce isDev = generateCSP url_origin env2 nonce isDev"
proof -
  have g: "getExternalDomains url_origin env1 = getExternalDomains url_origin env2"
    using assms by (rule getExternalDomains_cong)
  have n: "env1 ''NODE_ENV'' = env2 ''NODE_ENV''"
    using assms by (simp add: env_vars_read_def)
  have img: "buildImgSrc url_origin env1 = buildImgSrc url_origin env2"
    unfolding buildImgSrc_def g by (rule refl)
  have conn: "buildConnectSrc url_origin env1 d = buildConnectSrc url_origin env2 d" for d
    unfolding buildConnectSrc_def g by (rule refl)
  have csp: "generateCSP url_origin env1 nonce d = generateCSP url_origin env2 nonce d" for d
    unfolding generateCSP_def img conn by (rule refl)
  have hd: "getSecurityHeaders url_origin env1 nonce = getSecurityHeaders url_origin env2 nonce"
    unfolding getSecurityHeaders_def csp n by (rule refl)
  show ?thesis using hd csp by simp
qed

theorem security_headers_deterministic_witness:
  "list_all (\<lambda>v. env_production v = env_production_home v) env_vars_read
   \<and> getSecurityHeaders Some env_production (Some ''r4nd0m'')
       = getSecurityHeaders Some env_production_home (Some ''r4nd0m'')
   \<and> generateCSP Some env_production (Some ''r4nd0m'') False
       = generateCSP Some env_production_home (Some ''r4nd0m'') False"
proof -
  have h: "list_all (\<lambda>v. env_production v = env_production_home v) env_vars_read"
    by (simp add: env_vars_read_def env_production_def env_production_home_def)
  show ?thesis
    using h security_headers_deterministic [OF h, of Some "Some ''r4nd0m''" False] by blast
qed

section \<open>CSRF validation\<close>

text \<open>
  C1. For a non-empty submitted token, when \<open>getTokenFromCookie\<close> finds no stored token
  (no CSRF cookie holds one), \<open>validateToken\<close> returns false. This holds for every
  request context, so both where the recovery can write the fresh token
  (\<open>setToken\<close> succeeds) and where it cannot (\<open>setToken\<close> throws).
\<close>

theorem validateToken_recovery_fails_closed:
  assumes "truthy submittedToken" and "getTokenFromCookie ctx = None"
  shows "fst (validateToken p ctx submittedToken) = False"
  using assms by (simp add: validateToken_def split: sum.splits)

theorem validateToken_recovery_fails_closed_witness:
  "truthy (Some ''token'')
   \<and> getTokenFromCookie (ctx_no_cookies True) = None
   \<and> getTokenFromCookie (ctx_no_cookies False) = None
   \<and> (\<exists>c. setToken (ctx_no_cookies True) (generateToken uuid_a uuid_b) = Inr c)
   \<and> (\<exists>e. setToken (ctx_no_cookies False) (generateToken uuid_a uuid_b) = Inl e)
   \<and> fst (validateToken test_platform (ctx_no_cookies True) (Some ''token'')) = False
   \<and> fst (validateToken test_platform (ctx_no_cookies False) (Some ''token'')) = False"
proof -
  have t: "truthy (Some ''token'')" by simp
  have n: "getTokenFromCookie (ctx_no_cookies b) = None" for b
    by (simp add: getTokenFromCookie_def ctx_no_cookies_def cookie_value_def or_null_def Let_def)
  have s: "\<exists>c. setToken (ctx_no_cookies True) (generateToken uuid_a uuid_b) = Inr c"
    "\<exists>e. setToken (ctx_no_cookies False) (generateToken uuid_a uuid_b) = Inl e"
    by (simp_all add: setToken_def ctx_no_cookies_def Let_def)
  show ?thesis
    using t n s validateToken_recovery_fails_closed [OF t n, of test_platform True]
      validateToken_recovery_fails_closed [OF t n, of test_platform False]
    by simp
qed

text \<open>
  C7 fails as stated: outside production, with the primary and the backup cookie absent,
  \<open>getTokenFromCookie\<close> returns the value of the debug cookie and not null.
\<close>

theorem getTokenFromCookie_debug_counterexample:
  "env ctx_debug_only ''NODE_ENV'' \<noteq> Some ''production''
   \<and> cookie_value ctx_debug_only (CSRF_COOKIE_NAME (env ctx_debug_only)) = None
   \<and> cookie_value ctx_debug_only (CSRF_COOKIE_NAME (env ctx_debug_only) @ ''-backup'') = None
   \<and> getTokenFromCookie ctx_debug_only = Some ''abc''"
  by (simp add: getTokenFromCookie_def ctx_debug_only_def env_development_def cookie_abc_def
      CSRF_COOKIE_NAME_def cookie_value_def or_null_def Let_def)

text \<open>
  C7, amended. \<open>getTokenFromCookie\<close> returns the primary CSRF cookie's value when that
  cookie is present with a non-empty value, otherwise the backup cookie's value when that
  is present with a non-empty value; when neither is, it returns null in production, and
  outside production the debug cookie's value when that is present with a non-empty value
  and null otherwise. It returns null when the cookie store cannot be read.
\<close>

theorem getTokenFromCookie_order:
  "getTokenFromCookie ctx =
    (let name = CSRF_COOKIE_NAME (env ctx) in
     if \<not> cookies_available ctx then None
     else if truthy (cookie_value ctx name) then cookie_value ctx name
     else if truthy (cookie_value ctx (name @ ''-backup''))
       then cookie_value ctx (name @ ''-backup'')
     else if env ctx ''NODE_ENV'' \<noteq> Some ''production''
          \<and> truthy (cookie_value ctx (name @ ''-debug''))
       then cookie_value ctx (name @ ''-debug'')
     else None)"
  by (simp add: getTokenFromCookie_def or_null_def Let_def)

theorem getTokenFromCookie_order_witness:
  "getTokenFromCookie ctx_with_token = Some ''abc''
   \<and> getTokenFromCookie ctx_backup_only = Some ''xyz''
   \<and> getTokenFromCookie ctx_debug_only = Some ''abc''
   \<and> getTokenFromCookie (ctx_debug_only\<lparr>env := env_production\<rparr>) = None
   \<and> getTokenFromCookie (ctx_no_cookies True) = None
   \<and> getTokenFromCookie (ctx_with_token\<lparr>cookies_available := False\<rparr>) = None"
  using getTokenFromCookie_order [of ctx_with_token]
    getTokenFromCookie_order [of ctx_backup_only]
    getTokenFromCookie_order [of ctx_debug_only]
    getTokenFromCookie_order [of "ctx_debug_only\<lparr>env := env_production\<rparr>"]
    getTokenFromCookie_order [of "ctx_no_cookies True"]
    getTokenFromCookie_order [of "ctx_with_token\<lparr>cookies_available := False\<rparr>"]
  by (simp add: ctx_with_token_def ctx_backup_only_def ctx_debug_only_def ctx_no_cookies_def
      env_development_def env_production_def cookie_abc_def CSRF_COOKIE_NAME_def
      cookie_value_def Let_def)

section \<open>The CSRF wrapper of server actions\<close>

lemma validateToken_good:
  "validateToken test_platform ctx_with_token (Some ''abc'') = (True, ctx_with_token)"
  by (simp add: validateToken_def getTokenFromCookie_def ctx_with_token_def env_production_def
      cookie_abc_def CSRF_COOKIE_NAME_def cookie_value_def or_null_def Let_def
      timingSafeEqual_def test_platform_def utf8_encode_def utf8_char_def)

lemma validateToken_bad:
  "validateToken test_platform ctx_with_token (Some ''abd'') = (False, ctx_with_token)"
  by (simp add: validateToken_def getTokenFromCookie_def ctx_with_token_def env_production_def
      cookie_abc_def CSRF_COOKIE_NAME_def cookie_value_def or_null_def Let_def
      timingSafeEqual_def test_platform_def utf8_encode_def utf8_char_def)

text \<open>
  C8. The function returned by \<open>withCSRFProtection\<close> invokes the underlying action (once,
  with the arguments it received) exactly when the arguments hold a \<open>FormData\<close> and
  \<open>validateToken\<close> accepts the \<open>csrf_token\<close> of the first one. With no \<open>FormData\<close> it
  throws \<open>SecureActionError("CSRF protection requires FormData", "CSRF_NO_FORM_DATA", 400)\<close>,
  and when the validation fails it throws
  \<open>SecureActionError("Invalid CSRF token", "CSRF_TOKEN_INVALID", 403)\<close>; in both cases the
  action is not invoked.
\<close>

theorem withCSRFProtection_guard:
  "invocations (withCSRFProtection action p ctx args) =
     (case find_FormData args of
        None \<Rightarrow> []
      | Some formData \<Rightarrow>
          if fst (validateToken p ctx (getTokenFromFormData formData)) then [args] else [])
   \<and> (find_FormData args = None \<longrightarrow>
        outcome (withCSRFProtection action p ctx args)
          = Inl (SecureActionError ''CSRF protection requires FormData'' ''CSRF_NO_FORM_DATA'' 400)
        \<and> invocations (withCSRFProtection action p ctx args) = [])
   \<and> (\<forall>formData. find_FormData args = Some formData
          \<and> \<not> fst (validateToken p ctx (getTokenFromFormData formData)) \<longrightarrow>
        outcome (withCSRFProtection action p ctx args)
          = Inl (SecureActionError ''Invalid CSRF token'' ''CSRF_TOKEN_INVALID'' 403)
        \<and> invocations (withCSRFProtection action p ctx args) = [])"
  by (auto simp: withCSRFProtection_def split: option.splits prod.splits sum.splits)

theorem withCSRFProtection_guard_witness:
  "find_FormData args_no_form = None
   \<and> outcome (withCSRFProtection count_action test_platform ctx_with_token args_no_form)
       = Inl (SecureActionError ''CSRF protection requires FormData'' ''CSRF_NO_FORM_DATA'' 400)
   \<and> invocations (withCSRFProtection count_action test_platform ctx_with_token args_no_form) = []
   \<and> find_FormData args_bad_token = Some [(''csrf_token'', FormString ''abd'')]
   \<and> \<not> fst (validateToken test_platform ctx_with_token
               (getTokenFromFormData [(''csrf_token'', FormString ''abd'')]))
   \<and> outcome (withCSRFProtection count_action test_platform ctx_with_token args_bad_token)
       = Inl (SecureActionError ''Invalid CSRF token'' ''CSRF_TOKEN_INVALID'' 403)
   \<and> invocations (withCSRFProtection count_action test_platform ctx_with_token args_bad_token) = []
   \<and> invocations (withCSRFProtection count_action test_platform ctx_with_token args_good_token)
       = [args_good_token]"
proof -
  have f: "find_FormData args_no_form = None"
    "find_FormData args_bad_token = Some [(''csrf_token'', FormString ''abd'')]"
    "find_FormData args_good_token = Some [(''csrf_token'', FormString ''abc'')]"
    by (simp_all add: args_no_form_def args_bad_token_def args_good_token_def)
  have t: "getTokenFromFormData [(''csrf_token'', FormString ''abd'')] = Some ''abd''"
    "getTokenFromFormData [(''csrf_token'', FormString ''abc'')] = Some ''abc''"
    by (simp_all add: getTokenFromFormData_def)
  show ?thesis
    using withCSRFProtection_guard [of count_action test_platform ctx_with_token args_no_form]
      withCSRFProtection_guard [of count_action test_platform ctx_with_token args_bad_token]
      withCSRFProtection_guard [of count_action test_platform ctx_with_token args_good_token]
    by (simp add: f t validateToken_good validateToken_bad)
qed

section \<open>The CSRF token generator\<close>

lemma replace_all_char_append: "replace_all_char c r (xs @ ys) = replace_all_char c r xs @ replace_all_char c r ys"
  by (simp add: replace_all_char_def)

lemma replace_all_char_Nil: "replace_all_char c r [] = []"
  by (simp add: replace_all_char_def)

lemma replace_all_char_Cons: "replace_all_char c r (x # xs) = (if x = c then r else [x]) @ replace_all_char c r xs"
  by (simp add: replace_all_char_def)

lemma to_url_append: "to_url (xs @ ys) = to_url xs @ to_url ys"
  by (simp add: to_url_def replace_all_char_append)

lemma to_url_Cons: "to_url (x # xs) = to_url [x] @ to_url xs"
  using to_url_append [of "[x]" xs] by simp

lemma generateToken_to_url: "generateToken u1 u2 = take 43 (to_url (btoa (replace_all_char CHR ''-'' [] u1 @ replace_all_char CHR ''-'' [] u2)))"
  by (simp add: generateToken_def to_url_def Let_def)

lemma b64_in: "b64 n \<in> set base64_alphabet"
  unfolding b64_def by (rule nth_mem) (simp add: base64_alphabet_def)

lemma to_url_b64_char: "c \<in> set base64_alphabet \<Longrightarrow> to_url [c] = [url_char c] \<and> url_char c \<in> set url_alphabet"
  unfolding to_url_def replace_all_char_def url_char_def base64_alphabet_def url_alphabet_def
  by auto


lemma to_url_b64 [simp]: "to_url (b64 n # xs) = url_char (b64 n) # to_url xs"
  using to_url_Cons [of "b64 n" xs] to_url_b64_char [OF b64_in, of n] by simp

lemma url_char_b64_in: "url_char (b64 n) \<in> set url_alphabet"
  using to_url_b64_char [OF b64_in, of n] by simp

lemma to_url_pad [simp]: "to_url (CHR ''='' # xs) = to_url xs"
  by (simp add: to_url_def replace_all_char_def)

lemma to_url_Nil [simp]: "to_url [] = []"
  by (simp add: to_url_def replace_all_char_def)

lemma to_url_btoa_set: "set (to_url (btoa s)) \<subseteq> set url_alphabet"
  by (induction s rule: btoa.induct) (simp_all add: url_char_b64_in to_url_append)

lemma to_url_btoa_length: "length s \<le> length (to_url (btoa s))"
  by (induction s rule: btoa.induct) (simp_all add: to_url_append)

lemma strip_uuid:
  assumes "is_uuid u"
  shows "length (replace_all_char CHR ''-'' [] u) = 32"
    and "list_all is_hex (replace_all_char CHR ''-'' [] u)"
    and "u = take 8 (replace_all_char CHR ''-'' [] u) @ ''-''
           @ take 4 (drop 8 (replace_all_char CHR ''-'' [] u)) @ ''-''
           @ take 4 (drop 12 (replace_all_char CHR ''-'' [] u)) @ ''-''
           @ take 4 (drop 16 (replace_all_char CHR ''-'' [] u)) @ ''-''
           @ drop 20 (replace_all_char CHR ''-'' [] u)"
proof -
  define a b c d e where "a = take 8 u" and "b = take 4 (drop 9 u)" and "c = take 4 (drop 14 u)"
    and "d = take 4 (drop 19 u)" and "e = drop 24 u"
  have len: "length u = 36" using assms by (simp add: is_uuid_def)
  have hy: "u ! 8 = CHR ''-''" "u ! 13 = CHR ''-''" "u ! 18 = CHR ''-''" "u ! 23 = CHR ''-''"
    using assms by (simp_all add: is_uuid_def)
  have hx: "list_all is_hex a" "list_all is_hex b" "list_all is_hex c" "list_all is_hex d" "list_all is_hex e"
    using assms by (simp_all add: is_uuid_def a_def b_def c_def d_def e_def)
  have d8: "drop 8 u = CHR ''-'' # drop 9 u" using Cons_nth_drop_Suc [of 8 u] len hy by simp
  have d13: "drop 13 u = CHR ''-'' # drop 14 u" using Cons_nth_drop_Suc [of 13 u] len hy by simp
  have d18: "drop 18 u = CHR ''-'' # drop 19 u" using Cons_nth_drop_Suc [of 18 u] len hy by simp
  have d23: "drop 23 u = CHR ''-'' # drop 24 u" using Cons_nth_drop_Suc [of 23 u] len hy by simp
  have s9: "drop 9 u = b @ drop 13 u" using append_take_drop_id [of 4 "drop 9 u"] by (simp add: b_def)
  have s14: "drop 14 u = c @ drop 18 u" using append_take_drop_id [of 4 "drop 14 u"] by (simp add: c_def)
  have s19: "drop 19 u = d @ drop 23 u" using append_take_drop_id [of 4 "drop 19 u"] by (simp add: d_def)
  have "u = a @ drop 8 u" by (simp add: a_def)
  then have u: "u = a @ CHR ''-'' # b @ CHR ''-'' # c @ CHR ''-'' # d @ CHR ''-'' # e"
    unfolding d8 s9 d13 s14 d18 s19 d23 e_def .
  have nohy: "list_all is_hex xs \<Longrightarrow> replace_all_char CHR ''-'' [] xs = xs" for xs
    by (induction xs) (auto simp: replace_all_char_def is_hex_def)
  have s: "replace_all_char CHR ''-'' [] u = a @ b @ c @ d @ e"
    by (subst u) (simp add: replace_all_char_append replace_all_char_Cons nohy hx)
  have la: "length a = 8" "length b = 4" "length c = 4" "length d = 4" "length e = 12"
    using len by (simp_all add: a_def b_def c_def d_def e_def)
  show "length (replace_all_char CHR ''-'' [] u) = 32" by (simp add: s la)
  show "list_all is_hex (replace_all_char CHR ''-'' [] u)" by (simp add: s hx)
  show "u = take 8 (replace_all_char CHR ''-'' [] u) @ ''-''
           @ take 4 (drop 8 (replace_all_char CHR ''-'' [] u)) @ ''-''
           @ take 4 (drop 12 (replace_all_char CHR ''-'' [] u)) @ ''-''
           @ take 4 (drop 16 (replace_all_char CHR ''-'' [] u)) @ ''-''
           @ drop 20 (replace_all_char CHR ''-'' [] u)"
    unfolding s using u la by simp
qed

text \<open>
  C9. For every pair of version 4 UUIDs that \<open>crypto.randomUUID()\<close> can return,
  \<open>generateToken\<close> returns a string of exactly 43 characters, all of them in the
  URL-safe base64 alphabet \<open>[A-Za-z0-9_-]\<close>; it contains no \<open>+\<close>, \<open>/\<close> or \<open>=\<close>.
\<close>

theorem generateToken_shape:
  assumes "is_uuid u1" "is_uuid u2"
  shows "length (generateToken u1 u2) = 43
     \<and> set (generateToken u1 u2) \<subseteq> set url_alphabet
     \<and> CHR ''+'' \<notin> set (generateToken u1 u2)
     \<and> CHR ''/'' \<notin> set (generateToken u1 u2)
     \<and> CHR ''='' \<notin> set (generateToken u1 u2)"
proof -
  let ?comb = "replace_all_char CHR ''-'' [] u1 @ replace_all_char CHR ''-'' [] u2"
  have "length ?comb = 64"
    using strip_uuid(1) [OF assms(1)] strip_uuid(1) [OF assms(2)] by simp
  then have "43 \<le> length (to_url (btoa ?comb))"
    using to_url_btoa_length [of ?comb] by simp
  then have l: "length (generateToken u1 u2) = 43"
    by (simp add: generateToken_to_url)
  have "set (generateToken u1 u2) \<subseteq> set (to_url (btoa ?comb))"
    unfolding generateToken_to_url by (rule set_take_subset)
  then have s: "set (generateToken u1 u2) \<subseteq> set url_alphabet"
    using to_url_btoa_set [of ?comb] by blast
  have n: "CHR ''+'' \<notin> set url_alphabet" "CHR ''/'' \<notin> set url_alphabet"
    "CHR ''='' \<notin> set url_alphabet"
    by (simp_all add: url_alphabet_def)
  show ?thesis using l s n by blast
qed

lemma example_uuids: "is_uuid uuid_a" "is_uuid uuid_b" "is_uuid uuid_c"
  by (simp_all add: uuid_a_def uuid_b_def uuid_c_def is_uuid_def is_hex_def)

theorem generateToken_shape_witness:
  "is_uuid uuid_a \<and> is_uuid uuid_b
   \<and> length (generateToken uuid_a uuid_b) = 43
   \<and> set (generateToken uuid_a uuid_b) \<subseteq> set url_alphabet
   \<and> CHR ''+'' \<notin> set (generateToken uuid_a uuid_b)
   \<and> CHR ''/'' \<notin> set (generateToken uuid_a uuid_b)
   \<and> CHR ''='' \<notin> set (generateToken uuid_a uuid_b)"
  using example_uuids(1,2) generateToken_shape [OF example_uuids(1) example_uuids(2)]
  by blast

lemma btoa_append_groups: "length xs mod 3 = 0 \<Longrightarrow> btoa (xs @ ys) = btoa xs @ btoa ys"
  by (induction xs rule: btoa.induct) simp_all

lemma to_url_btoa_groups:
  "length xs mod 3 = 0 \<Longrightarrow>
     to_url (btoa xs) = map url_char (btoa xs) \<and> 3 * length (btoa xs) = 4 * length xs"
  by (induction xs rule: btoa.induct) (simp_all add: to_url_append)

lemma token_prefix:
  assumes "length h1 = 32" "h2 \<noteq> []"
  shows "take 43 (to_url (btoa (h1 @ h2))) =
     map url_char (btoa (take 30 h1))
     @ [url_char (b64 (of_char (h1 ! 30) div 4)),
        url_char (b64 ((of_char (h1 ! 30) mod 4) * 16 + of_char (h1 ! 31) div 16)),
        url_char (b64 ((of_char (h1 ! 31) mod 16) * 4 + of_char (hd h2) div 64))]"
proof -
  obtain c r where h2: "h2 = c # r" using assms(2) by (cases h2) auto
  have d30: "drop 30 h1 = [h1 ! 30, h1 ! 31]"
    using assms(1) Cons_nth_drop_Suc [of 30 h1] Cons_nth_drop_Suc [of 31 h1] by simp
  have h1: "h1 = take 30 h1 @ [h1 ! 30, h1 ! 31]"
    using append_take_drop_id [of 30 h1] d30 by simp
  have l30: "length (take 30 h1) mod 3 = 0" using assms(1) by simp
  have "btoa (h1 @ h2) = btoa (take 30 h1 @ (h1 ! 30 # h1 ! 31 # c # r))"
    by (subst h1) (simp add: h2)
  also have "\<dots> = btoa (take 30 h1) @ btoa (h1 ! 30 # h1 ! 31 # c # r)"
    by (rule btoa_append_groups [OF l30])
  finally have b: "to_url (btoa (h1 @ h2)) = map url_char (btoa (take 30 h1)) @ to_url (btoa (h1 ! 30 # h1 ! 31 # c # r))"
    using to_url_btoa_groups [OF l30] by (simp add: to_url_append)
  have len: "length (map url_char (btoa (take 30 h1))) = 40"
    using to_url_btoa_groups [OF l30] assms(1) by simp
  show ?thesis unfolding b using len by (simp add: h2)
qed

lemma hd_strip_uuid:
  assumes "is_uuid u"
  shows "replace_all_char CHR ''-'' [] u \<noteq> []"
    and "hd (replace_all_char CHR ''-'' [] u) = hd u"
proof -
  let ?h = "replace_all_char CHR ''-'' [] u"
  show ne: "?h \<noteq> []" using strip_uuid(1) [OF assms] by auto
  obtain x xs where h: "?h = x # xs" using ne by (cases ?h) auto
  have "hd u = hd (take 8 ?h @ ''-'' @ take 4 (drop 8 ?h) @ ''-''
           @ take 4 (drop 12 ?h) @ ''-'' @ take 4 (drop 16 ?h) @ ''-'' @ drop 20 ?h)"
    using strip_uuid(3) [OF assms] by simp
  also have "\<dots> = x" by (simp add: h)
  finally show "hd ?h = hd u" by (simp add: h)
qed

text \<open>
  C2. The code does not do what the claim says: the token is not an injective function
  of the random values drawn. The 43 characters kept by \<open>slice(0, 43)\<close> encode the 32
  hexadecimal characters of the first UUID and the top two bits of the next character, so
  the second UUID is lost: for version 4 UUIDs, two draws with the same first UUID give
  the same token whenever the first characters of their second UUIDs agree in their top
  two bits (both a digit, or both a letter).
\<close>

theorem generateToken_drops_second_uuid:
  assumes "is_uuid u1" "is_uuid u2" "is_uuid u2'"
    and "(of_char (hd u2) :: nat) div 64 = of_char (hd u2') div 64"
  shows "generateToken u1 u2 = generateToken u1 u2'"
proof -
  let ?s = "replace_all_char CHR ''-'' []"
  have l: "length (?s u1) = 32" using strip_uuid(1) [OF assms(1)] .
  have "(of_char (hd (?s u2)) :: nat) div 64 = of_char (hd (?s u2')) div 64"
    using assms(4) hd_strip_uuid(2) [OF assms(2)] hd_strip_uuid(2) [OF assms(3)] by simp
  then have "take 43 (to_url (btoa (?s u1 @ ?s u2))) = take 43 (to_url (btoa (?s u1 @ ?s u2')))"
    unfolding token_prefix [OF l hd_strip_uuid(1) [OF assms(2)]]
      token_prefix [OF l hd_strip_uuid(1) [OF assms(3)]]
    by simp
  then show ?thesis by (simp add: generateToken_to_url)
qed

theorem generateToken_drops_second_uuid_witness:
  "is_uuid uuid_a \<and> is_uuid uuid_b \<and> is_uuid uuid_c \<and> uuid_b \<noteq> uuid_c
   \<and> (of_char (hd uuid_b) :: nat) div 64 = of_char (hd uuid_c) div 64
   \<and> generateToken uuid_a uuid_b = generateToken uuid_a uuid_c"
proof -
  have n: "uuid_b \<noteq> uuid_c" by (simp add: uuid_b_def uuid_c_def)
  have h: "(of_char (hd uuid_b) :: nat) div 64 = of_char (hd uuid_c) div 64"
    by (simp add: uuid_b_def uuid_c_def)
  show ?thesis
    using n h example_uuids
      generateToken_drops_second_uuid [OF example_uuids(1) example_uuids(2) example_uuids(3) h]
    by blast
qed

section \<open>Cache invalidation by the post actions\<close>

text \<open>
  C3. Every post mutation action revalidates the listing tag, both single-item tags, the
  category tag, the search-results tag and the owning user's tag. No action passes
  \<open>related-posts\<close> or \<open>popular-posts\<close>, the only tags of \<open>getCachedRelatedPosts\<close>
  and \<open>getCachedPopularPosts\<close>: of the cached post readers, these two are the ones whose
  entries no post action invalidates.
\<close>

theorem post_actions_miss_aggregate_tags:
  "CACHE_TAGS RELATED_POSTS \<notin> set (revalidated_tags a)
   \<and> CACHE_TAGS POPULAR_POSTS \<notin> set (revalidated_tags a)
   \<and> filter (\<lambda>f. \<not> invalidates a f) post_readers
       = [getCachedRelatedPosts, getCachedPopularPosts]
   \<and> set (map CACHE_TAGS [POSTS, POST_BY_ID, POST_BY_SLUG, SEARCH_RESULTS, USER_POSTS, CATEGORIES])
       \<subseteq> set (revalidated_tags a)"
  by (cases a)
    (simp_all add: invalidates_def allTags_def post_readers_def getCachedRelatedPosts_def
      getCachedPopularPosts_def getCachedPosts_def getCachedPostSearch_def
      getCachedPostById_def getCachedPostBySlug_def)

section \<open>Cache keys\<close>



































section \<open>MemoryCache\<close>

lemma cache_run_snoc: "cache_run (ops @ [op]) = cache_step (cache_run ops) op"
  by (simp add: cache_run_def)

lemma cache_invariant:
  "cache_run ops key = Some e \<Longrightarrow>
     \<exists>t ttl. (t, CacheSet key (val e) ttl) \<in> set ops \<and> expires e = expiry_of t ttl"
proof (induction ops arbitrary: key e rule: rev_induct)
  case Nil
  then show ?case by (simp add: cache_run_def)
next
  case (snoc op ops)
  obtain now c where op: "op = (now, c)" by (cases op)
  show ?case
  proof (cases c)
    case (CacheGet k)
    then have "cache_run ops key = Some e"
      using snoc.prems by (auto simp: cache_run_snoc op cache_get_def split: option.splits if_splits)
    then show ?thesis using snoc.IH by fastforce
  next
    case (CacheSet k v ttl)
    show ?thesis
    proof (cases "k = key")
      case True
      then have "e = \<lparr> val = v, expires = expiry_of now ttl \<rparr>"
        using snoc.prems by (simp add: cache_run_snoc op CacheSet cache_set_def expiry_of_def)
      then show ?thesis using True by (auto simp: op CacheSet)
    next
      case False
      then have "cache_run ops key = Some e"
        using snoc.prems by (simp add: cache_run_snoc op CacheSet cache_set_def)
      then show ?thesis using snoc.IH by fastforce
    qed
  next
    case (CacheDel k)
    then have "cache_run ops key = Some e"
      using snoc.prems by (auto simp: cache_run_snoc op cache_del_def split: if_splits)
    then show ?thesis using snoc.IH by fastforce
  qed
qed

text \<open>
  C10 fails as stated: an entry is still served at the millisecond of its expiry, where
  the current time is not strictly before the stored expiry.
\<close>

theorem memory_cache_expiry_boundary_counterexample:
  "fst (cache_get (cache_run one_set) 1000 ''k'') = Some ''v''
   \<and> expiry_of 0 (Some 1) = 1000
   \<and> \<not> (1000 < expiry_of 0 (Some 1))"
  by (simp add: one_set_def cache_run_def cache_set_def cache_get_def expiry_of_def)

text \<open>
  C10, amended. After any sequence of set, get and del calls, \<open>get(key)\<close> returns a value
  only if a \<open>set(key, value, ttl)\<close> occurred and the current time is at or before the
  expiry that this set stored (its time plus \<open>ttl * 1000\<close>); once the current time is
  after the stored expiry of the key's entry, \<open>get\<close> returns null and removes the entry.
\<close>

theorem memory_cache_never_serves_expired:
  "(fst (cache_get (cache_run ops) now key) = Some v \<longrightarrow>
      (\<exists>t ttl. (t, CacheSet key v ttl) \<in> set ops \<and> now \<le> expiry_of t ttl))
   \<and> (\<forall>e. cache_run ops key = Some e \<and> expires e < now \<longrightarrow>
        fst (cache_get (cache_run ops) now key) = None
        \<and> snd (cache_get (cache_run ops) now key) key = None)"
proof (intro conjI impI allI)
  assume "fst (cache_get (cache_run ops) now key) = Some v"
  then obtain e where e: "cache_run ops key = Some e" "\<not> expires e < now" "val e = v"
    by (auto simp: cache_get_def split: option.splits if_splits)
  from cache_invariant [OF e(1)] e(2,3)
  show "\<exists>t ttl. (t, CacheSet key v ttl) \<in> set ops \<and> now \<le> expiry_of t ttl"
    by fastforce
next
  fix e assume "cache_run ops key = Some e \<and> expires e < now"
  then show "fst (cache_get (cache_run ops) now key) = None"
    by (simp add: cache_get_def)
next
  fix e assume "cache_run ops key = Some e \<and> expires e < now"
  then show "snd (cache_get (cache_run ops) now key) key = None"
    by (simp add: cache_get_def)
qed

theorem memory_cache_never_serves_expired_witness:
  "fst (cache_get (cache_run one_set) 1000 ''k'') = Some ''v''
   \<and> (\<exists>t ttl. (t, CacheSet ''k'' ''v'' ttl) \<in> set one_set \<and> 1000 \<le> expiry_of t ttl)
   \<and> cache_run one_set ''k'' = Some \<lparr> val = ''v'', expires = 1000 \<rparr>
   \<and> fst (cache_get (cache_run one_set) 1001 ''k'') = None
   \<and> snd (cache_get (cache_run one_set) 1001 ''k'') ''k'' = None"
proof -
  have g: "fst (cache_get (cache_run one_set) 1000 ''k'') = Some ''v''"
    by (simp add: one_set_def cache_run_def cache_set_def cache_get_def)
  have r: "cache_run one_set ''k'' = Some \<lparr> val = ''v'', expires = 1000 \<rparr>"
    by (simp add: one_set_def cache_run_def cache_set_def)
  show ?thesis
    using g r memory_cache_never_serves_expired [of one_set 1000 "''k''" "''v''"]
      memory_cache_never_serves_expired [of one_set 1001 "''k''" "''v''"]
    by simp
qed

end
